(* ===== verification/Prelude.thy ===== *)
theory Prelude
  imports Complex_Main "HOL-Library.Multiset"
begin

text \<open>
  Shared vocabulary of the development: the rule collections the component theories
  fill, the type that stands for Rust's \<open>f32\<close>, and generic lemmas on lists, sums
  and square roots that several components use.

  Rust's \<open>f32\<close> is modelled by \<open>real\<close>: every arithmetic operation of the plugin is
  exact here, so IEEE rounding, infinities and NaN are not modelled (the header of
  Spec2Isabelle says which claims this affects).
\<close>

named_theorems vec_simps "component equations of the glam vector operations"
named_theorems world_simps "equations of the ECS world accessors and queries"
named_theorems system_simps "characteristic equations of the plugin's systems"

type_synonym f32 = real

text \<open>
  A system that can panic returns \<open>error + 'a\<close>; composing two of them stops at the
  first \<open>Inl\<close>, as a panic aborts the schedule.
\<close>

definition and_then :: "('e + 'a) \<Rightarrow> ('a \<Rightarrow> 'e + 'b) \<Rightarrow> 'e + 'b" where
  "and_then r f = (case r of Inl e \<Rightarrow> Inl e | Inr a \<Rightarrow> f a)"

subsection \<open>Lists updated in place\<close>

text \<open>
  A system that writes one component back updates one entity of the world's entity
  list; a projection that does not see that component sees the same list.
\<close>

lemma map_update_same:
  "f v = f (xs ! i) \<Longrightarrow> map f (xs[i := v]) = map f xs"
proof (induction xs arbitrary: i)
  case Nil
  then show ?case by simp
next
  case (Cons x xs)
  then show ?case by (cases i) auto
qed

subsection \<open>Results of fallible steps\<close>

lemma and_then_Inr [simp]: "and_then (Inr a) f = f a"
  by (simp add: and_then_def)

lemma and_then_Inl [simp]: "and_then (Inl e) f = Inl e"
  by (simp add: and_then_def)

subsection \<open>Sums of squares\<close>

lemma sum_sq3_pos:
  "(a::real) \<noteq> 0 \<or> b \<noteq> 0 \<or> c \<noteq> 0 \<Longrightarrow> 0 < a * a + b * b + c * c"
proof -
  assume h: "a \<noteq> 0 \<or> b \<noteq> 0 \<or> c \<noteq> 0"
  have "0 \<le> a * a" "0 \<le> b * b" "0 \<le> c * c" by simp_all
  moreover from h have "0 < a * a \<or> 0 < b * b \<or> 0 < c * c"
    by (auto simp: zero_less_mult_iff)
  ultimately show ?thesis by linarith
qed

end
