(* ===== verification/Vec3.thy ===== *)
theory Vec3
  imports Prelude
begin

text \<open>
  The vector and transform types the plugin computes with: glam's \<open>Vec3\<close> and
  \<open>Quat\<close> and Bevy's \<open>Transform\<close>, as libraries the sources only call. Each
  operation is the one glam documents (\<open>length = sqrt (dot self self)\<close>,
  \<open>normalize = self * length_recip\<close>, \<open>length_recip = 1 / length\<close>), over
  \<open>f32\<close> modelled as \<open>real\<close>. The lemmas give each operation component-wise
  and prove the facts the movement system relies on: the length of a vector is zero
  only for the zero vector, and a normalised non-zero vector has length one.
\<close>

record vec3 =
  vx :: f32
  vy :: f32
  vz :: f32

definition vec3_new :: "f32 \<Rightarrow> f32 \<Rightarrow> f32 \<Rightarrow> vec3" where
  "vec3_new a b c = \<lparr>vx = a, vy = b, vz = c\<rparr>"

definition vec3_ZERO :: vec3 where
  "vec3_ZERO = vec3_new 0 0 0"

definition vec3_ONE :: vec3 where
  "vec3_ONE = vec3_new 1 1 1"

text \<open>\<open>impl Add for Vec3\<close>, used by \<open>+=\<close>.\<close>

definition vec3_add :: "vec3 \<Rightarrow> vec3 \<Rightarrow> vec3" where
  "vec3_add u v = vec3_new (vx u + vx v) (vy u + vy v) (vz u + vz v)"

text \<open>\<open>impl Mul<f32> for Vec3\<close>: each lane times the scalar.\<close>

definition vec3_mul_f32 :: "vec3 \<Rightarrow> f32 \<Rightarrow> vec3" where
  "vec3_mul_f32 v s = vec3_new (vx v * s) (vy v * s) (vz v * s)"

definition vec3_dot :: "vec3 \<Rightarrow> vec3 \<Rightarrow> f32" where
  "vec3_dot u v = vx u * vx v + vy u * vy v + vz u * vz v"

definition vec3_length :: "vec3 \<Rightarrow> f32" where
  "vec3_length v = sqrt (vec3_dot v v)"

definition vec3_length_recip :: "vec3 \<Rightarrow> f32" where
  "vec3_length_recip v = 1 / vec3_length v"

definition vec3_normalize :: "vec3 \<Rightarrow> vec3" where
  "vec3_normalize v = vec3_mul_f32 v (vec3_length_recip v)"

record quat =
  qx :: f32
  qy :: f32
  qz :: f32
  qw :: f32

definition quat_IDENTITY :: quat where
  "quat_IDENTITY = \<lparr>qx = 0, qy = 0, qz = 0, qw = 1\<rparr>"

text \<open>Bevy's \<open>Transform\<close> and \<open>Transform::from_xyz\<close>.\<close>

record transform =
  translation :: vec3
  rotation :: quat
  scale :: vec3

definition transform_from_xyz :: "f32 \<Rightarrow> f32 \<Rightarrow> f32 \<Rightarrow> transform" where
  "transform_from_xyz x y z =
     \<lparr>translation = vec3_new x y z, rotation = quat_IDENTITY, scale = vec3_ONE\<rparr>"

subsection \<open>Component equations\<close>

lemma vec3_new_sel [simp, vec_simps]:
  "vx (vec3_new a b c) = a" "vy (vec3_new a b c) = b" "vz (vec3_new a b c) = c"
  by (simp_all add: vec3_new_def)

lemma vec3_new_eta [simp]: "vec3_new (vx v) (vy v) (vz v) = v"
  by (simp add: vec3_new_def)

lemma vec3_eq_iff: "(u::vec3) = v \<longleftrightarrow> vx u = vx v \<and> vy u = vy v \<and> vz u = vz v"
  by (cases u, cases v) simp

lemma vec3_ZERO_sel [simp, vec_simps]:
  "vx vec3_ZERO = 0" "vy vec3_ZERO = 0" "vz vec3_ZERO = 0"
  by (simp_all add: vec3_ZERO_def)

lemma vec3_add_sel [simp, vec_simps]:
  "vx (vec3_add u v) = vx u + vx v"
  "vy (vec3_add u v) = vy u + vy v"
  "vz (vec3_add u v) = vz u + vz v"
  by (simp_all add: vec3_add_def)

lemma vec3_mul_f32_sel [simp, vec_simps]:
  "vx (vec3_mul_f32 v s) = vx v * s"
  "vy (vec3_mul_f32 v s) = vy v * s"
  "vz (vec3_mul_f32 v s) = vz v * s"
  by (simp_all add: vec3_mul_f32_def)

lemma vec3_add_ZERO [simp]: "vec3_add v vec3_ZERO = v"
  by (simp add: vec3_eq_iff)

lemma vec3_mul_f32_ZERO [simp]: "vec3_mul_f32 vec3_ZERO s = vec3_ZERO"
  by (simp add: vec3_eq_iff)

lemma vec3_mul_f32_zero [simp]: "vec3_mul_f32 v 0 = vec3_ZERO"
  by (simp add: vec3_eq_iff)

subsection \<open>Length and normalisation\<close>

lemma vec3_length_ZERO [simp]: "vec3_length vec3_ZERO = 0"
  by (simp add: vec3_length_def vec3_dot_def)

lemma vec3_length_pos_iff: "0 < vec3_length v \<longleftrightarrow> v \<noteq> vec3_ZERO"
proof -
  have "0 < vec3_dot v v \<longleftrightarrow> vx v \<noteq> 0 \<or> vy v \<noteq> 0 \<or> vz v \<noteq> 0"
    using sum_sq3_pos [of "vx v" "vy v" "vz v"] by (auto simp: vec3_dot_def)
  then show ?thesis
    by (auto simp: vec3_length_def vec3_eq_iff)
qed

lemma vec3_length_mul_f32: "vec3_length (vec3_mul_f32 v s) = \<bar>s\<bar> * vec3_length v"
proof -
  have "vec3_dot (vec3_mul_f32 v s) (vec3_mul_f32 v s) = (s * s) * vec3_dot v v"
    by (simp add: vec3_dot_def algebra_simps)
  then show ?thesis
    by (simp add: vec3_length_def real_sqrt_mult)
qed

lemma vec3_length_normalize:
  assumes "v \<noteq> vec3_ZERO"
  shows "vec3_length (vec3_normalize v) = 1"
proof -
  from assms have "0 < vec3_length v" by (simp add: vec3_length_pos_iff)
  then show ?thesis
    by (simp add: vec3_normalize_def vec3_length_recip_def vec3_length_mul_f32)
qed

lemma vec3_normalize_sel [vec_simps]:
  "vx (vec3_normalize v) = vx v / vec3_length v"
  "vy (vec3_normalize v) = vy v / vec3_length v"
  "vz (vec3_normalize v) = vz v / vec3_length v"
  by (simp_all add: vec3_normalize_def vec3_length_recip_def)

lemma transform_from_xyz_sel [simp]:
  "translation (transform_from_xyz x y z) = vec3_new x y z"
  "rotation (transform_from_xyz x y z) = quat_IDENTITY"
  "scale (transform_from_xyz x y z) = vec3_ONE"
  by (simp_all add: transform_from_xyz_def)

end
