(* ===== verification/Ecs.thy ===== *)
theory Ecs
  imports Vec3
begin

text \<open>
  The part of Bevy 0.10 that the plugin's systems read and write, as the host the
  sources call: the keyboard resource \<open>Input<KeyCode>\<close>, the primary window, the
  entities with their \<open>Transform\<close>, the \<open>Player\<close> marker component of
  \<open>src/src/player.rs\<close>, the queries \<open>get_single\<close> / \<open>get_single_mut\<close>,
  \<open>Result::unwrap\<close> (a panic, modelled as an \<open>Inl\<close> value) and
  \<open>Commands::spawn\<close>. The world is a record of the primary windows and the list of
  entities; an entity is a record of the components the plugin touches.
\<close>

subsection \<open>Input\<close>

text \<open>
  Bevy's \<open>KeyCode\<close> has about 160 variants. The eight the plugin queries are kept
  as constructors; every other key is \<open>Other_key n\<close>.
\<close>

datatype KeyCode = Left | Right | Up | Down | A | D | W | S | Other_key nat

text \<open>\<open>Input<KeyCode>\<close>: the set of keys held during the current frame.\<close>

record input =
  pressed_keys :: "KeyCode set"

definition pressed :: "input \<Rightarrow> KeyCode \<Rightarrow> bool" where
  "pressed inp k \<longleftrightarrow> k \<in> pressed_keys inp"

subsection \<open>Windows, entities and the world\<close>

record window =
  width :: f32
  height :: f32

text \<open>
  An entity holds a \<open>Transform\<close>, the texture of its sprite (the asset path the
  \<open>AssetServer\<close> loaded, if it has a sprite) and whether it carries the
  \<open>Player\<close> marker component (\<open>#[derive(Component)] pub struct Player;\<close>).
\<close>

record entity =
  transform :: transform
  texture :: "string option"
  player :: bool

record world =
  primary_windows :: "window list"
  entities :: "entity list"

subsection \<open>Queries\<close>

datatype query_single_error = NoEntities | MultipleEntities

text \<open>\<open>Query::get_single\<close>: the one matching item, or the reason there is not one.\<close>

definition get_single :: "'a list \<Rightarrow> query_single_error + 'a" where
  "get_single xs =
     (case xs of [] \<Rightarrow> Inl NoEntities | [x] \<Rightarrow> Inr x | _ \<Rightarrow> Inl MultipleEntities)"

text \<open>\<open>Query<&Window, With<PrimaryWindow>>\<close>.\<close>

definition window_query :: "world \<Rightarrow> window list" where
  "window_query w = primary_windows w"

text \<open>
  \<open>Query<&mut Transform, With<Player>>\<close>: the indices of the entities with the
  \<open>Player\<close> marker; \<open>get_single_mut\<close> on it gives the index whose transform the
  system may write back.
\<close>

definition player_query :: "world \<Rightarrow> nat list" where
  "player_query w = filter (\<lambda>i. player (entities w ! i)) [0..<length (entities w)]"

definition set_transform :: "nat \<Rightarrow> transform \<Rightarrow> world \<Rightarrow> world" where
  "set_transform i t w = w\<lparr>entities := (entities w)[i := (entities w ! i)\<lparr>transform := t\<rparr>]\<rparr>"

text \<open>\<open>Commands::spawn\<close>, applied when the system's command buffer is flushed.\<close>

definition commands_spawn :: "entity \<Rightarrow> world \<Rightarrow> world" where
  "commands_spawn e w = w\<lparr>entities := entities w @ [e]\<rparr>"

subsection \<open>Panics\<close>

text \<open>\<open>Result::unwrap\<close> on an \<open>Err\<close> panics; the panic is a value of \<open>error\<close>.\<close>

datatype error = Unwrap_failed query_single_error

definition unwrap :: "query_single_error + 'a \<Rightarrow> error + 'a" where
  "unwrap r = (case r of Inl e \<Rightarrow> Inl (Unwrap_failed e) | Inr a \<Rightarrow> Inr a)"

subsection \<open>Lemmas on queries and updates\<close>

lemma get_single_simps [simp, world_simps]:
  "get_single [] = Inl NoEntities"
  "get_single [x] = Inr x"
  "get_single (x # y # zs) = Inl MultipleEntities"
  by (simp_all add: get_single_def)

lemma get_single_Inr_iff: "get_single xs = Inr x \<longleftrightarrow> xs = [x]"
  by (cases xs rule: remdups_adj.cases) (auto simp: get_single_def)

lemma get_single_Inl_iff: "(\<exists>e. get_single xs = Inl e) \<longleftrightarrow> length xs \<noteq> 1"
  by (cases xs rule: remdups_adj.cases) (auto simp: get_single_def)

lemma unwrap_simps [simp, world_simps]:
  "unwrap (Inl e) = Inl (Unwrap_failed e)"
  "unwrap (Inr a) = Inr a"
  by (simp_all add: unwrap_def)

lemma player_query_nth:
  "i \<in> set (player_query w) \<longleftrightarrow> i < length (entities w) \<and> player (entities w ! i)"
  by (auto simp: player_query_def)

lemma set_transform_sel [simp, world_simps]:
  "primary_windows (set_transform i t w) = primary_windows w"
  "length (entities (set_transform i t w)) = length (entities w)"
  by (simp_all add: set_transform_def)

lemma window_query_set_transform [simp, world_simps]:
  "window_query (set_transform i t w) = window_query w"
  by (simp add: window_query_def)

lemma player_query_set_transform [simp, world_simps]:
  "player_query (set_transform i t w) = player_query w"
proof -
  have "\<forall>j < length (entities w).
      player (entities (set_transform i t w) ! j) = player (entities w ! j)"
    by (cases "i < length (entities w)") (auto simp: set_transform_def nth_list_update)
  then show ?thesis by (auto simp: player_query_def intro!: filter_cong)
qed

lemma set_transform_nth:
  "i < length (entities w) \<Longrightarrow>
   entities (set_transform i t w) ! j =
     (if j = i then (entities w ! i)\<lparr>transform := t\<rparr> else entities w ! j)"
  by (simp add: set_transform_def)

lemma set_transform_twice [simp, world_simps]:
  "set_transform i t2 (set_transform i t1 w) = set_transform i t2 w"
  by (cases "i < length (entities w)") (simp_all add: set_transform_def list_update_beyond)

lemma transform_set_transform_nth [simp, world_simps]:
  "i < length (entities w) \<Longrightarrow> transform (entities (set_transform i t w) ! i) = t"
  by (simp add: set_transform_def)

lemma commands_spawn_sel [simp, world_simps]:
  "primary_windows (commands_spawn e w) = primary_windows w"
  "entities (commands_spawn e w) = entities w @ [e]"
  by (simp_all add: commands_spawn_def)

lemma player_query_commands_spawn:
  "player_query (commands_spawn e w) =
     player_query w @ (if player e then [length (entities w)] else [])"
  by (auto simp: player_query_def nth_append intro!: filter_cong)

end
