(* ===== verification/Movement.thy ===== *)
theory Movement
  imports Ecs
begin

text \<open>
  The movement integrator, \<open>move_player\<close> of \<open>src/src/player.rs\<close> (lines 48--75),
  and the speed constant of line 4. The system sums one unit vector per held direction
  (each direction held through either of its two keys), normalises the sum when it is
  non-zero, and adds \<open>direction * PLAYER_SPEED * delta_seconds\<close> to the translation of
  the single \<open>Player\<close> entity; without exactly one such entity it does nothing.
  The lemmas give the direction component-wise, its length (zero or one), the size of
  the step, and what the system leaves alone.
\<close>

definition PLAYER_SPEED :: f32 where
  "PLAYER_SPEED = 200"

text \<open>Lines 54--67: the direction vector accumulated from the held keys.\<close>

definition key_direction :: "input \<Rightarrow> vec3" where
  "key_direction keyboard =
     (let d0 = vec3_ZERO;
          d1 = (if pressed keyboard Left \<or> pressed keyboard A
                then vec3_add d0 (vec3_new (-1) 0 0) else d0);
          d2 = (if pressed keyboard Right \<or> pressed keyboard D
                then vec3_add d1 (vec3_new 1 0 0) else d1);
          d3 = (if pressed keyboard Up \<or> pressed keyboard W
                then vec3_add d2 (vec3_new 0 1 0) else d2);
          d4 = (if pressed keyboard Down \<or> pressed keyboard S
                then vec3_add d3 (vec3_new 0 (-1) 0) else d3)
      in d4)"

text \<open>Lines 69--71: normalise when the length is positive.\<close>

definition move_direction :: "input \<Rightarrow> vec3" where
  "move_direction keyboard =
     (let direction = key_direction keyboard
      in if 0 < vec3_length direction then vec3_normalize direction else direction)"

text \<open>Line 73: the displacement \<open>direction * PLAYER_SPEED * time.delta_seconds()\<close>.\<close>

definition move_delta :: "input \<Rightarrow> f32 \<Rightarrow> vec3" where
  "move_delta keyboard dt = vec3_mul_f32 (vec3_mul_f32 (move_direction keyboard) PLAYER_SPEED) dt"

text \<open>
  Lines 48--75: the whole system. \<open>if let Ok(mut transform) =
  player_query.get_single_mut()\<close> runs the body only for exactly one player.
\<close>

definition move_player :: "input \<Rightarrow> f32 \<Rightarrow> world \<Rightarrow> world" where
  "move_player keyboard dt w =
     (case get_single (player_query w) of
        Inr i \<Rightarrow>
          (let tr = transform (entities w ! i)
           in set_transform i
                (tr\<lparr>translation := vec3_add (translation tr) (move_delta keyboard dt)\<rparr>) w)
      | Inl _ \<Rightarrow> w)"

subsection \<open>The direction vector\<close>

text \<open>Which logical directions are held: either of the two alias keys.\<close>

abbreviation held_left :: "input \<Rightarrow> bool" where
  "held_left kb \<equiv> pressed kb Left \<or> pressed kb A"
abbreviation held_right :: "input \<Rightarrow> bool" where
  "held_right kb \<equiv> pressed kb Right \<or> pressed kb D"
abbreviation held_up :: "input \<Rightarrow> bool" where
  "held_up kb \<equiv> pressed kb Up \<or> pressed kb W"
abbreviation held_down :: "input \<Rightarrow> bool" where
  "held_down kb \<equiv> pressed kb Down \<or> pressed kb S"

lemma key_direction_sel [vec_simps]:
  "vx (key_direction kb) = (if held_left kb then -1 else 0) + (if held_right kb then 1 else 0)"
  "vy (key_direction kb) = (if held_up kb then 1 else 0) + (if held_down kb then -1 else 0)"
  "vz (key_direction kb) = 0"
  by (simp_all add: key_direction_def Let_def)

lemma key_direction_eq:
  "key_direction kb = vec3_new
     ((if held_left kb then -1 else 0) + (if held_right kb then 1 else 0))
     ((if held_up kb then 1 else 0) + (if held_down kb then -1 else 0)) 0"
  by (simp add: vec3_eq_iff key_direction_sel)

text \<open>The direction depends on the keys only through the four held directions.\<close>

lemma key_direction_cong:
  assumes "held_left kb = held_left kb'" "held_right kb = held_right kb'"
    "held_up kb = held_up kb'" "held_down kb = held_down kb'"
  shows "key_direction kb = key_direction kb'"
  using assms by (simp add: key_direction_eq)

lemma move_direction_cong:
  assumes "held_left kb = held_left kb'" "held_right kb = held_right kb'"
    "held_up kb = held_up kb'" "held_down kb = held_down kb'"
  shows "move_direction kb = move_direction kb'"
  using key_direction_cong [OF assms] by (simp add: move_direction_def)

lemma move_direction_ZERO:
  "key_direction kb = vec3_ZERO \<Longrightarrow> move_direction kb = vec3_ZERO"
  by (simp add: move_direction_def Let_def)

lemma move_direction_nonzero:
  "key_direction kb \<noteq> vec3_ZERO \<Longrightarrow> move_direction kb = vec3_normalize (key_direction kb)"
  by (simp add: move_direction_def vec3_length_pos_iff)

lemma move_direction_length:
  "vec3_length (move_direction kb) = (if key_direction kb = vec3_ZERO then 0 else 1)"
proof (cases "key_direction kb = vec3_ZERO")
  case True
  then show ?thesis
    by (simp add: move_direction_ZERO)
next
  case False
  then show ?thesis
    by (simp add: move_direction_nonzero vec3_length_normalize)
qed

lemma move_direction_vz [vec_simps]: "vz (move_direction kb) = 0"
  by (simp add: move_direction_def Let_def vec3_normalize_sel key_direction_sel)

text \<open>Each lane of a vector is bounded by its length.\<close>

lemma vec3_lane_le_length:
  "\<bar>vx v\<bar> \<le> vec3_length v" "\<bar>vy v\<bar> \<le> vec3_length v"
proof -
  have "vx v * vx v \<le> vec3_dot v v" "vy v * vy v \<le> vec3_dot v v"
    by (simp_all add: vec3_dot_def)
  then show "\<bar>vx v\<bar> \<le> vec3_length v" "\<bar>vy v\<bar> \<le> vec3_length v"
    unfolding vec3_length_def
    by (metis real_sqrt_abs2 real_sqrt_le_mono)+
qed

subsection \<open>The displacement\<close>

lemma move_delta_sel [vec_simps]:
  "vx (move_delta kb dt) = vx (move_direction kb) * PLAYER_SPEED * dt"
  "vy (move_delta kb dt) = vy (move_direction kb) * PLAYER_SPEED * dt"
  "vz (move_delta kb dt) = 0"
  by (simp_all add: move_delta_def move_direction_vz)

lemma move_delta_length:
  "vec3_length (move_delta kb dt) =
     (if key_direction kb = vec3_ZERO then 0 else PLAYER_SPEED * \<bar>dt\<bar>)"
  by (simp add: move_delta_def vec3_length_mul_f32 move_direction_length PLAYER_SPEED_def)

lemma move_delta_lane_bound:
  "\<bar>vx (move_delta kb dt)\<bar> \<le> PLAYER_SPEED * \<bar>dt\<bar>"
  "\<bar>vy (move_delta kb dt)\<bar> \<le> PLAYER_SPEED * \<bar>dt\<bar>"
  using vec3_lane_le_length [of "move_delta kb dt"] move_delta_length [of kb dt]
  by (auto split: if_splits simp: PLAYER_SPEED_def)

lemma move_delta_ZERO:
  "key_direction kb = vec3_ZERO \<Longrightarrow> move_delta kb dt = vec3_ZERO"
  by (simp add: move_delta_def move_direction_ZERO)

lemma move_delta_add:
  "vec3_add (move_delta kb a) (move_delta kb b) = move_delta kb (a + b)"
  by (simp add: vec3_eq_iff move_delta_sel distrib_left)

lemma vec3_add_assoc: "vec3_add (vec3_add t u) v = vec3_add t (vec3_add u v)"
  by (simp add: vec3_eq_iff)

subsection \<open>The system\<close>

lemma move_player_single [system_simps]:
  "player_query w = [i] \<Longrightarrow>
   move_player kb dt w =
     set_transform i ((transform (entities w ! i))\<lparr>translation :=
        vec3_add (translation (transform (entities w ! i))) (move_delta kb dt)\<rparr>) w"
  by (simp add: move_player_def Let_def)

lemma move_player_skip [system_simps]:
  "length (player_query w) \<noteq> 1 \<Longrightarrow> move_player kb dt w = w"
  by (cases "player_query w" rule: remdups_adj.cases) (simp_all add: move_player_def)

lemma move_player_cong_delta:
  assumes "move_delta kb dt = move_delta kb' dt'"
  shows "move_player kb dt w = move_player kb' dt' w"
  unfolding move_player_def assms by (rule refl)

lemma move_player_ZERO_delta:
  "move_delta kb dt = vec3_ZERO \<Longrightarrow> move_player kb dt w = w"
proof (cases "length (player_query w) = 1")
  case True
  then obtain i where q: "player_query w = [i]"
    by (cases "player_query w" rule: remdups_adj.cases) auto
  then have "i < length (entities w)"
    using player_query_nth [of i w] by simp
  moreover assume "move_delta kb dt = vec3_ZERO"
  ultimately show ?thesis
    using q by (simp add: move_player_single set_transform_def)
next
  case False
  then show ?thesis by (rule move_player_skip)
qed

lemma move_player_sel [simp, world_simps]:
  "primary_windows (move_player kb dt w) = primary_windows w"
  "length (entities (move_player kb dt w)) = length (entities w)"
  "player_query (move_player kb dt w) = player_query w"
  by (simp_all add: move_player_def Let_def split: sum.splits)

text \<open>When the held directions cancel on both axes the direction is zero.\<close>

lemma key_direction_balanced:
  "held_left kb = held_right kb \<Longrightarrow> held_up kb = held_down kb \<Longrightarrow>
   key_direction kb = vec3_ZERO"
  by (simp add: vec3_eq_iff key_direction_sel)

lemma move_player_balanced:
  "held_left kb = held_right kb \<Longrightarrow> held_up kb = held_down kb \<Longrightarrow>
   move_player kb dt w = w"
  by (simp add: move_player_ZERO_delta move_delta_ZERO key_direction_balanced)

lemma move_player_entities:
  "entities (move_player kb dt w) =
     (case get_single (player_query w) of
        Inr i \<Rightarrow> (entities w)[i := (entities w ! i)\<lparr>transform := (transform (entities w ! i))
                   \<lparr>translation := vec3_add (translation (transform (entities w ! i)))
                                             (move_delta kb dt)\<rparr>\<rparr>]
      | Inl _ \<Rightarrow> entities w)"
  by (simp add: move_player_def set_transform_def Let_def split: sum.splits)

subsection \<open>Properties of the movement system\<close>

text \<open>
  C8. Idempotence under no input: when none of the eight keys is held, the movement
  system leaves the world unchanged, whatever the elapsed time.
\<close>

theorem move_player_idle:
  assumes "pressed_keys kb \<inter> {Left, Right, Up, Down, A, D, W, S} = {}"
  shows "move_player kb dt w = w"
  using assms by (intro move_player_balanced) (auto simp: pressed_def)

theorem move_player_idle_witness:
  "move_player \<lparr>pressed_keys = {Other_key 7}\<rparr> (1 / 60)
     \<lparr>primary_windows = [\<lparr>width = 800, height = 600\<rparr>],
      entities = [\<lparr>transform = transform_from_xyz 400 300 0, texture = None, player = True\<rparr>]\<rparr>
   = \<lparr>primary_windows = [\<lparr>width = 800, height = 600\<rparr>],
      entities = [\<lparr>transform = transform_from_xyz 400 300 0, texture = None, player = True\<rparr>]\<rparr>"
  by (rule move_player_idle) simp

text \<open>
  C5. Unit-speed steps: with exactly one player, the system adds \<open>move_delta\<close> to
  the player's translation, and that displacement has length
  \<open>PLAYER_SPEED * |dt|\<close> whenever the held keys give a non-zero direction (so a
  diagonal is as fast as an axis) and zero otherwise.
\<close>

theorem move_player_unit_speed:
  assumes "player_query w = [i]"
  shows "translation (transform (entities (move_player kb dt w) ! i)) =
           vec3_add (translation (transform (entities w ! i))) (move_delta kb dt)
         \<and> vec3_length (move_delta kb dt) =
           (if key_direction kb = vec3_ZERO then 0 else PLAYER_SPEED * \<bar>dt\<bar>)"
proof -
  from assms have "i < length (entities w)"
    using player_query_nth [of i w] by simp
  with assms show ?thesis
    by (simp add: move_player_single set_transform_def move_delta_length)
qed

theorem move_player_unit_speed_witness:
  "translation (transform (entities (move_player \<lparr>pressed_keys = {Right, W}\<rparr> 1
      \<lparr>primary_windows = [\<lparr>width = 800, height = 600\<rparr>],
       entities = [\<lparr>transform = transform_from_xyz 400 300 0, texture = None, player = True\<rparr>]\<rparr>) ! 0))
     = vec3_add (vec3_new 400 300 0) (move_delta \<lparr>pressed_keys = {Right, W}\<rparr> 1)
   \<and> vec3_length (move_delta \<lparr>pressed_keys = {Right, W}\<rparr> 1) = 200"
  using move_player_unit_speed [of
      "\<lparr>primary_windows = [\<lparr>width = 800, height = 600\<rparr>],
        entities = [\<lparr>transform = transform_from_xyz 400 300 0, texture = None, player = True\<rparr>]\<rparr>"
      0 "\<lparr>pressed_keys = {Right, W}\<rparr>" 1]
  by (simp add: player_query_def pressed_def vec3_eq_iff key_direction_sel PLAYER_SPEED_def)

text \<open>
  C6. The diagonal law: holding up and right (through either alias) and neither left
  nor down moves the player by exactly \<open>PLAYER_SPEED * dt / sqrt 2\<close> on each axis,
  not by \<open>PLAYER_SPEED * dt\<close>.
\<close>

theorem move_delta_diagonal:
  assumes "held_up kb" "held_right kb" "\<not> held_left kb" "\<not> held_down kb"
  shows "move_delta kb dt = vec3_new (PLAYER_SPEED * dt / sqrt 2) (PLAYER_SPEED * dt / sqrt 2) 0"
proof -
  have dir: "key_direction kb = vec3_new 1 1 0"
    using assms by (simp add: key_direction_eq)
  have len: "vec3_length (vec3_new 1 1 0) = sqrt 2"
    by (simp add: vec3_length_def vec3_dot_def)
  have "move_direction kb = vec3_normalize (vec3_new 1 1 0)"
    using dir move_direction_nonzero [of kb] by (simp add: vec3_ZERO_def vec3_new_def)
  also have "\<dots> = vec3_new (1 / sqrt 2) (1 / sqrt 2) 0"
    using len by (simp add: vec3_eq_iff vec3_normalize_sel)
  finally have "move_direction kb = vec3_new (1 / sqrt 2) (1 / sqrt 2) 0" .
  then show ?thesis
    by (simp add: move_delta_def vec3_eq_iff)
qed

theorem move_delta_diagonal_witness:
  "move_delta \<lparr>pressed_keys = {Up, Right}\<rparr> 1 = vec3_new (200 / sqrt 2) (200 / sqrt 2) 0"
  using move_delta_diagonal [of "\<lparr>pressed_keys = {Up, Right}\<rparr>" 1]
  by (simp add: pressed_def PLAYER_SPEED_def)

text \<open>
  C7. Alias equivalence: two keyboard states that hold the same logical directions
  (left through \<open>Left\<close> or \<open>A\<close>, right through \<open>Right\<close> or \<open>D\<close>, up through
  \<open>Up\<close> or \<open>W\<close>, down through \<open>Down\<close> or \<open>S\<close>) move the player identically;
  in particular \<open>Left\<close> alone and \<open>A\<close> alone.
\<close>

theorem move_player_alias:
  assumes "held_left kb = held_left kb'" "held_right kb = held_right kb'"
    "held_up kb = held_up kb'" "held_down kb = held_down kb'"
  shows "move_player kb dt w = move_player kb' dt w"
  using move_direction_cong [OF assms]
  by (intro move_player_cong_delta) (simp add: move_delta_def)

theorem move_player_alias_witness:
  "move_player \<lparr>pressed_keys = {Left}\<rparr> (1 / 2)
     \<lparr>primary_windows = [\<lparr>width = 800, height = 600\<rparr>],
      entities = [\<lparr>transform = transform_from_xyz 400 300 0, texture = None, player = True\<rparr>]\<rparr>
   = move_player \<lparr>pressed_keys = {A}\<rparr> (1 / 2)
     \<lparr>primary_windows = [\<lparr>width = 800, height = 600\<rparr>],
      entities = [\<lparr>transform = transform_from_xyz 400 300 0, texture = None, player = True\<rparr>]\<rparr>"
  by (rule move_player_alias) (simp_all add: pressed_def)

text \<open>
  C15. Opposing keys cancel: holding left and right together (and neither up nor
  down) leaves the world unchanged for every elapsed time.
\<close>

theorem move_player_opposing_cancel:
  assumes "held_left kb" "held_right kb" "\<not> held_up kb" "\<not> held_down kb"
  shows "move_player kb dt w = w"
  using assms by (intro move_player_balanced) simp_all

theorem move_player_opposing_cancel_witness:
  "move_player \<lparr>pressed_keys = {Left, Right}\<rparr> 5
     \<lparr>primary_windows = [\<lparr>width = 800, height = 600\<rparr>],
      entities = [\<lparr>transform = transform_from_xyz 400 300 0, texture = None, player = True\<rparr>]\<rparr>
   = \<lparr>primary_windows = [\<lparr>width = 800, height = 600\<rparr>],
      entities = [\<lparr>transform = transform_from_xyz 400 300 0, texture = None, player = True\<rparr>]\<rparr>"
  by (rule move_player_opposing_cancel) (simp_all add: pressed_def)

text \<open>C17. A tick with \<open>delta_seconds = 0\<close> is a no-op of the movement system.\<close>

theorem move_player_zero_dt: "move_player kb 0 w = w"
  by (simp add: move_player_ZERO_delta move_delta_def)

text \<open>
  C24. Frame-rate independence: running the movement system for \<open>a\<close> seconds and
  then for \<open>b\<close> seconds with the same keys gives the same world as one run for
  \<open>a + b\<close> seconds; the displacement is linear in the elapsed time.
\<close>

theorem move_player_time_additive:
  "move_player kb b (move_player kb a w) = move_player kb (a + b) w"
proof (cases "length (player_query w) = 1")
  case True
  then obtain i where q: "player_query w = [i]"
    by (cases "player_query w" rule: remdups_adj.cases) auto
  then have i: "i < length (entities w)"
    using player_query_nth [of i w] by simp
  have q': "player_query (move_player kb a w) = [i]"
    using q by simp
  show ?thesis
    using q q' i
    by (simp add: move_player_single vec3_add_assoc move_delta_add)
next
  case False
  then show ?thesis by (simp add: move_player_skip)
qed

text \<open>
  C22. Frame: the movement system changes nothing of any entity but the x and y of
  its translation: depth, rotation, scale, texture and the \<open>Player\<close> marker of every
  entity, and the windows, are kept.
\<close>

theorem move_player_frame:
  "map (\<lambda>e. (vz (translation (transform e)), rotation (transform e), scale (transform e),
             texture e, player e)) (entities (move_player kb dt w))
   = map (\<lambda>e. (vz (translation (transform e)), rotation (transform e), scale (transform e),
             texture e, player e)) (entities w)
   \<and> primary_windows (move_player kb dt w) = primary_windows w"
proof (cases "get_single (player_query w)")
  case (Inl e)
  then show ?thesis by (simp add: move_player_entities)
next
  case (Inr i)
  then have "i < length (entities w)"
    using player_query_nth [of i w] by (simp add: get_single_Inr_iff)
  with Inr show ?thesis
    by (auto simp: move_player_entities map_update list_update_same_conv move_delta_sel
        intro!: nth_equalityI simp del: list_update_id)
qed

text \<open>
  C18. Soft absence: with no player entity, or with more than one, the movement
  system silently does nothing.
\<close>

theorem move_player_absent:
  assumes "player_query w = [] \<or> 2 \<le> length (player_query w)"
  shows "move_player kb dt w = w"
  using assms by (intro move_player_skip) auto

theorem move_player_absent_witness:
  "move_player \<lparr>pressed_keys = {Right}\<rparr> 1
     \<lparr>primary_windows = [\<lparr>width = 800, height = 600\<rparr>], entities = []\<rparr>
   = \<lparr>primary_windows = [\<lparr>width = 800, height = 600\<rparr>], entities = []\<rparr>"
  by (rule move_player_absent) (simp add: player_query_def)

end
