(* ===== verification/Confine.thy ===== *)
theory Confine
  imports Ecs
begin

text \<open>
  The boundary clamp, \<open>confine_player_movement\<close> of \<open>src/src/player.rs\<close> (lines
  77--101), and the radius constant of line 5. The system first unwraps the primary
  window query (a panic without exactly one primary window, even when there is no
  player), then clamps the x and the y of the single player's translation, each with
  an \<open>if / else if\<close> chain whose lower bound is tested first. The lemmas relate the
  chain to the reference clamp \<open>max lo (min hi v)\<close>, give its bounds, and describe
  what the code does when the window is narrower than the player.
\<close>

definition PLAYER_RADIUS :: f32 where
  "PLAYER_RADIUS = 32"

text \<open>Lines 88--92 (and 93--97 for y): the clamp of one coordinate.\<close>

definition confine_axis :: "f32 \<Rightarrow> f32 \<Rightarrow> f32 \<Rightarrow> f32" where
  "confine_axis v min_v max_v =
     (if v < min_v then min_v else if v > max_v then max_v else v)"

text \<open>Lines 82--83 and 86--97: the bounds from the window and the clamped translation.\<close>

definition confine_translation :: "window \<Rightarrow> vec3 \<Rightarrow> vec3" where
  "confine_translation win translation0 =
     (let min_xy = 0 + PLAYER_RADIUS;
          max_xy = (width win - PLAYER_RADIUS, height win - PLAYER_RADIUS)
      in translation0\<lparr>vx := confine_axis (vx translation0) min_xy (fst max_xy),
                     vy := confine_axis (vy translation0) min_xy (snd max_xy)\<rparr>)"

text \<open>Lines 77--101: the whole system; the window is unwrapped before the player query.\<close>

definition confine_player_movement :: "world \<Rightarrow> error + world" where
  "confine_player_movement w =
     and_then (unwrap (get_single (window_query w))) (\<lambda>win.
       case get_single (player_query w) of
         Inr i \<Rightarrow>
           (let tr = transform (entities w ! i)
            in Inr (set_transform i
                 (tr\<lparr>translation := confine_translation win (translation tr)\<rparr>) w))
       | Inl _ \<Rightarrow> Inr w)"

text \<open>
  The spec's invariant (section 3): the translation lies in the rectangle of the
  window shrunk by the radius on every side.
\<close>

definition in_viewport :: "window \<Rightarrow> vec3 \<Rightarrow> bool" where
  "in_viewport win t \<longleftrightarrow>
     PLAYER_RADIUS \<le> vx t \<and> vx t \<le> width win - PLAYER_RADIUS \<and>
     PLAYER_RADIUS \<le> vy t \<and> vy t \<le> height win - PLAYER_RADIUS"

text \<open>A window at least as wide and as high as the player's diameter.\<close>

definition fits_player :: "window \<Rightarrow> bool" where
  "fits_player win \<longleftrightarrow> 2 * PLAYER_RADIUS \<le> width win \<and> 2 * PLAYER_RADIUS \<le> height win"

subsection \<open>The clamp of one coordinate\<close>

lemma confine_axis_ref:
  "min_v \<le> max_v \<Longrightarrow> confine_axis v min_v max_v = max min_v (min max_v v)"
  by (simp add: confine_axis_def)

lemma confine_axis_bounds:
  "min_v \<le> max_v \<Longrightarrow> min_v \<le> confine_axis v min_v max_v \<and> confine_axis v min_v max_v \<le> max_v"
  by (simp add: confine_axis_def)

lemma confine_axis_id:
  "min_v \<le> v \<Longrightarrow> v \<le> max_v \<Longrightarrow> confine_axis v min_v max_v = v"
  by (simp add: confine_axis_def)

lemma confine_axis_degenerate:
  "max_v < min_v \<Longrightarrow> confine_axis v min_v max_v = (if v < min_v then min_v else max_v)"
  by (simp add: confine_axis_def)

subsection \<open>The clamped translation\<close>

lemma confine_translation_sel [vec_simps]:
  "vx (confine_translation win t) = confine_axis (vx t) PLAYER_RADIUS (width win - PLAYER_RADIUS)"
  "vy (confine_translation win t) = confine_axis (vy t) PLAYER_RADIUS (height win - PLAYER_RADIUS)"
  "vz (confine_translation win t) = vz t"
  by (simp_all add: confine_translation_def Let_def)

lemma confine_translation_in_viewport:
  "fits_player win \<Longrightarrow> in_viewport win (confine_translation win t)"
  by (simp add: in_viewport_def fits_player_def confine_translation_sel confine_axis_bounds)

lemma confine_translation_id:
  "in_viewport win t \<Longrightarrow> confine_translation win t = t"
  by (simp add: in_viewport_def vec3_eq_iff confine_translation_sel confine_axis_id)

subsection \<open>The system\<close>

lemma confine_player_movement_single [system_simps]:
  "window_query w = [win] \<Longrightarrow> player_query w = [i] \<Longrightarrow>
   confine_player_movement w =
     Inr (set_transform i ((transform (entities w ! i))\<lparr>translation :=
        confine_translation win (translation (transform (entities w ! i)))\<rparr>) w)"
  by (simp add: confine_player_movement_def Let_def)

lemma confine_player_movement_no_player [system_simps]:
  "window_query w = [win] \<Longrightarrow> length (player_query w) \<noteq> 1 \<Longrightarrow>
   confine_player_movement w = Inr w"
  by (cases "player_query w" rule: remdups_adj.cases)
    (simp_all add: confine_player_movement_def)

lemma confine_player_movement_window_error:
  "get_single (window_query w) = Inl e \<Longrightarrow> confine_player_movement w = Inl (Unwrap_failed e)"
  by (simp add: confine_player_movement_def)

text \<open>The system as one case distinction: window first, then player.\<close>

lemma confine_player_movement_eq:
  "confine_player_movement w =
     (case get_single (window_query w) of
        Inl e \<Rightarrow> Inl (Unwrap_failed e)
      | Inr win \<Rightarrow> Inr (case get_single (player_query w) of
          Inr i \<Rightarrow> set_transform i ((transform (entities w ! i))\<lparr>translation :=
                    confine_translation win (translation (transform (entities w ! i)))\<rparr>) w
        | Inl _ \<Rightarrow> w))"
  by (simp add: confine_player_movement_def and_then_def unwrap_def Let_def split: sum.splits)

lemma confine_player_movement_Inr_iff:
  "(\<exists>w'. confine_player_movement w = Inr w') \<longleftrightarrow> length (window_query w) = 1"
  using get_single_Inl_iff [of "window_query w"]
  by (auto simp: confine_player_movement_eq split: sum.splits)

lemma confine_player_movement_sel:
  "confine_player_movement w = Inr w' \<Longrightarrow>
   primary_windows w' = primary_windows w \<and> player_query w' = player_query w \<and>
   length (entities w') = length (entities w)"
  by (auto simp: confine_player_movement_eq split: sum.splits)

lemma confine_player_movement_entities:
  "window_query w = [win] \<Longrightarrow>
   confine_player_movement w = Inr w' \<Longrightarrow>
   entities w' =
     (case get_single (player_query w) of
        Inr i \<Rightarrow> (entities w)[i := (entities w ! i)\<lparr>transform := (transform (entities w ! i))
                   \<lparr>translation := confine_translation win
                                    (translation (transform (entities w ! i)))\<rparr>\<rparr>]
      | Inl _ \<Rightarrow> entities w)"
  by (auto simp: confine_player_movement_eq set_transform_def split: sum.splits)

subsection \<open>Properties of the clamp system\<close>

text \<open>
  C1. Clamp invariant: with one primary window at least twice the radius wide and
  high and one player, the clamp system succeeds and leaves the player with
  \<open>PLAYER_RADIUS \<le> x \<le> width - PLAYER_RADIUS\<close> and
  \<open>PLAYER_RADIUS \<le> y \<le> height - PLAYER_RADIUS\<close>, wherever the player was before.
\<close>

theorem confine_player_movement_in_viewport:
  assumes "window_query w = [win]" "player_query w = [i]" "fits_player win"
  shows "\<exists>w'. confine_player_movement w = Inr w' \<and>
           in_viewport win (translation (transform (entities w' ! i)))"
proof -
  from assms(2) have "i < length (entities w)"
    using player_query_nth [of i w] by simp
  with assms show ?thesis
    by (simp add: confine_player_movement_single set_transform_def
        confine_translation_in_viewport)
qed

theorem confine_player_movement_in_viewport_witness:
  "\<exists>w'. confine_player_movement
          \<lparr>primary_windows = [\<lparr>width = 800, height = 600\<rparr>],
           entities = [\<lparr>transform = transform_from_xyz 980 (-5) 0, texture = None,
                        player = True\<rparr>]\<rparr> = Inr w' \<and>
        in_viewport \<lparr>width = 800, height = 600\<rparr> (translation (transform (entities w' ! 0)))"
  by (rule confine_player_movement_in_viewport)
    (simp_all add: window_query_def player_query_def fits_player_def PLAYER_RADIUS_def)

text \<open>
  C12. The \<open>if / else if\<close> chains of the code compute the reference clamp: in a
  window that fits the player, the clamped translation is
  \<open>max r (min (width - r) x)\<close>, \<open>max r (min (height - r) y)\<close>, with depth kept.
\<close>

theorem confine_translation_clamp:
  assumes "fits_player win"
  shows "confine_translation win t =
           vec3_new (max PLAYER_RADIUS (min (width win - PLAYER_RADIUS) (vx t)))
                    (max PLAYER_RADIUS (min (height win - PLAYER_RADIUS) (vy t))) (vz t)"
  using assms
  by (simp add: vec3_eq_iff confine_translation_sel confine_axis_ref fits_player_def)

theorem confine_translation_clamp_witness:
  "confine_translation \<lparr>width = 800, height = 600\<rparr> (vec3_new 980 300 0) =
     vec3_new (max 32 (min (800 - 32) 980)) (max 32 (min (600 - 32) 300)) 0"
  using confine_translation_clamp [of "\<lparr>width = 800, height = 600\<rparr>" "vec3_new 980 300 0"]
  by (simp add: fits_player_def PLAYER_RADIUS_def)

text \<open>
  C14. Degenerate windows: when the window is narrower than the player's diameter,
  the clamp never settles: clamping the clamped x again gives a different x (it
  alternates between \<open>PLAYER_RADIUS\<close> and \<open>width - PLAYER_RADIUS\<close>), because the
  lower bound is tested first and the upper bound lies below it.
\<close>

theorem confine_translation_degenerate_oscillates:
  assumes "width win < 2 * PLAYER_RADIUS"
  shows "vx (confine_translation win (confine_translation win t)) \<noteq> vx (confine_translation win t)"
  using assms
  by (simp add: confine_translation_sel confine_axis_degenerate)

theorem confine_translation_degenerate_oscillates_witness:
  "vx (confine_translation \<lparr>width = 50, height = 600\<rparr>
         (confine_translation \<lparr>width = 50, height = 600\<rparr> (vec3_new 25 300 0)))
   \<noteq> vx (confine_translation \<lparr>width = 50, height = 600\<rparr> (vec3_new 25 300 0))"
  by (rule confine_translation_degenerate_oscillates) (simp add: PLAYER_RADIUS_def)

text \<open>C20. A translation already inside the shrunk window is left where it is.\<close>

theorem confine_translation_inside:
  assumes "in_viewport win t"
  shows "confine_translation win t = t"
  using assms by (rule confine_translation_id)

theorem confine_translation_inside_witness:
  "confine_translation \<lparr>width = 800, height = 600\<rparr> (vec3_new 400 300 0) = vec3_new 400 300 0"
  by (rule confine_translation_inside) (simp add: in_viewport_def PLAYER_RADIUS_def)

text \<open>
  C13. The clamp panics without a primary window, even when no player exists: the
  window query is unwrapped on every tick, before the player query.
\<close>

theorem confine_player_movement_no_window:
  assumes "window_query w = []"
  shows "confine_player_movement w = Inl (Unwrap_failed NoEntities)"
  using assms by (simp add: confine_player_movement_window_error)

theorem confine_player_movement_no_window_witness:
  "confine_player_movement
     \<lparr>primary_windows = [],
      entities = [\<lparr>transform = transform_from_xyz 400 300 0, texture = None, player = True\<rparr>]\<rparr>
   = Inl (Unwrap_failed NoEntities)"
  by (rule confine_player_movement_no_window) (simp add: window_query_def)

text \<open>
  C19. Soft absence: with a primary window but no player entity the clamp succeeds
  and changes nothing.
\<close>

theorem confine_player_movement_absent:
  assumes "window_query w = [win]" "player_query w = []"
  shows "confine_player_movement w = Inr w"
  using assms by (simp add: confine_player_movement_no_player)

theorem confine_player_movement_absent_witness:
  "confine_player_movement
     \<lparr>primary_windows = [\<lparr>width = 800, height = 600\<rparr>],
      entities = [\<lparr>transform = transform_from_xyz 1 2 0, texture = None, player = False\<rparr>]\<rparr>
   = Inr \<lparr>primary_windows = [\<lparr>width = 800, height = 600\<rparr>],
      entities = [\<lparr>transform = transform_from_xyz 1 2 0, texture = None, player = False\<rparr>]\<rparr>"
  by (rule confine_player_movement_absent) (simp_all add: window_query_def player_query_def)

text \<open>
  C23. Frame: when the clamp succeeds it changes nothing of any entity but the x and
  y of the player's translation; depth, rotation, scale, texture and markers stay.
\<close>

theorem confine_player_movement_frame:
  assumes "confine_player_movement w = Inr w'"
  shows "map (\<lambda>e. (vz (translation (transform e)), rotation (transform e), scale (transform e),
             texture e, player e)) (entities w')
       = map (\<lambda>e. (vz (translation (transform e)), rotation (transform e), scale (transform e),
             texture e, player e)) (entities w)"
proof -
  from assms obtain win where win: "window_query w = [win]"
    using confine_player_movement_Inr_iff [of w]
    by (cases "window_query w" rule: remdups_adj.cases) auto
  show ?thesis
    using confine_player_movement_entities [OF win assms]
    by (auto simp: confine_translation_sel intro!: map_update_same split: sum.splits)
qed

theorem confine_player_movement_frame_witness:
  "map (\<lambda>e. (vz (translation (transform e)), rotation (transform e), scale (transform e),
             texture e, player e))
     (entities (projr (confine_player_movement
       \<lparr>primary_windows = [\<lparr>width = 800, height = 600\<rparr>],
        entities = [\<lparr>transform = transform_from_xyz 980 300 0, texture = None, player = True\<rparr>]\<rparr>)))
   = map (\<lambda>e. (vz (translation (transform e)), rotation (transform e), scale (transform e),
             texture e, player e))
       [\<lparr>transform = transform_from_xyz 980 300 0, texture = None, player = True\<rparr>]"
proof -
  let ?w = "\<lparr>primary_windows = [\<lparr>width = 800, height = 600\<rparr>],
        entities = [\<lparr>transform = transform_from_xyz 980 300 0, texture = None, player = True\<rparr>]\<rparr>"
  have ok: "confine_player_movement ?w = Inr (projr (confine_player_movement ?w))"
    by (simp add: confine_player_movement_eq window_query_def player_query_def)
  show ?thesis
    using confine_player_movement_frame [OF ok] by simp
qed

end
