(* ===== verification/Spawn.thy ===== *)
theory Spawn
  imports Confine
begin

text \<open>
  The startup system \<open>spawn_player\<close> of \<open>src/src/player.rs\<close> (lines 31--46): it
  unwraps the primary window query (a panic without exactly one primary window) and
  spawns one entity with a sprite bundle at the window's centre, depth 0, with the
  texture \<open>sprites/ball_blue_large.png\<close> and the \<open>Player\<close> marker. The bundle's
  other fields (\<open>..Default::default()\<close>) are rendering data the model does not keep.
\<close>

definition player_sprite :: string where
  "player_sprite = ''sprites/ball_blue_large.png''"

definition spawn_player :: "world \<Rightarrow> error + world" where
  "spawn_player w =
     and_then (unwrap (get_single (window_query w))) (\<lambda>window.
       Inr (commands_spawn
              \<lparr>transform = transform_from_xyz (width window / 2) (height window / 2) 0,
               texture = Some player_sprite,
               player = True\<rparr> w))"

subsection \<open>Lemmas\<close>

lemma spawn_player_eq:
  "spawn_player w =
     (case get_single (window_query w) of
        Inl e \<Rightarrow> Inl (Unwrap_failed e)
      | Inr win \<Rightarrow> Inr (commands_spawn
          \<lparr>transform = transform_from_xyz (width win / 2) (height win / 2) 0,
           texture = Some player_sprite, player = True\<rparr> w))"
  by (simp add: spawn_player_def and_then_def unwrap_def split: sum.splits)

subsection \<open>Properties of the spawn system\<close>

text \<open>
  C11. Spawn at the centre: with one primary window, the startup system succeeds and
  adds exactly one player entity, at \<open>(width / 2, height / 2, 0)\<close> with the ball
  sprite; the entities that were there are kept.
\<close>

theorem spawn_player_centre:
  assumes "window_query w = [win]"
  shows "\<exists>w'. spawn_player w = Inr w' \<and>
           player_query w' = player_query w @ [length (entities w)] \<and>
           entities w' ! length (entities w) =
             \<lparr>transform = transform_from_xyz (width win / 2) (height win / 2) 0,
              texture = Some ''sprites/ball_blue_large.png'', player = True\<rparr> \<and>
           take (length (entities w)) (entities w') = entities w"
  using assms
  by (simp add: spawn_player_eq player_query_commands_spawn player_sprite_def)

theorem spawn_player_centre_witness:
  "\<exists>w'. spawn_player \<lparr>primary_windows = [\<lparr>width = 800, height = 600\<rparr>], entities = []\<rparr> = Inr w' \<and>
     player_query w' = player_query \<lparr>primary_windows = [\<lparr>width = 800, height = 600\<rparr>], entities = []\<rparr> @ [0] \<and>
     entities w' ! 0 =
       \<lparr>transform = transform_from_xyz (800 / 2) (600 / 2) 0,
        texture = Some ''sprites/ball_blue_large.png'', player = True\<rparr> \<and>
     take 0 (entities w') = []"
  using spawn_player_centre [of "\<lparr>primary_windows = [\<lparr>width = 800, height = 600\<rparr>], entities = []\<rparr>"
      "\<lparr>width = 800, height = 600\<rparr>"]
  by (simp add: window_query_def)

text \<open>
  C16. Fatal precondition: without exactly one primary window the startup system
  panics (\<open>get_single().unwrap()\<close>), with \<open>NoEntities\<close> when there is none and
  \<open>MultipleEntities\<close> when there are several.
\<close>

theorem spawn_player_no_window:
  assumes "length (window_query w) \<noteq> 1"
  shows "spawn_player w =
           Inl (Unwrap_failed (if window_query w = [] then NoEntities else MultipleEntities))"
  using assms
  by (cases "window_query w" rule: remdups_adj.cases) (simp_all add: spawn_player_eq)

theorem spawn_player_no_window_witness:
  "spawn_player \<lparr>primary_windows = [\<lparr>width = 800, height = 600\<rparr>, \<lparr>width = 640, height = 480\<rparr>],
                 entities = []\<rparr> = Inl (Unwrap_failed MultipleEntities)"
  using spawn_player_no_window [of "\<lparr>primary_windows = [\<lparr>width = 800, height = 600\<rparr>,
      \<lparr>width = 640, height = 480\<rparr>], entities = []\<rparr>"]
  by (simp add: window_query_def)

text \<open>
  C21. The spawn position satisfies the clamp invariant whenever the window fits
  the player: the centre lies in the window shrunk by the radius.
\<close>

theorem spawn_player_in_viewport:
  assumes "window_query w = [win]" "fits_player win" "spawn_player w = Inr w'"
  shows "in_viewport win (translation (transform (entities w' ! length (entities w))))"
  using assms
  by (auto simp: spawn_player_eq in_viewport_def fits_player_def PLAYER_RADIUS_def)

theorem spawn_player_in_viewport_witness:
  "in_viewport \<lparr>width = 800, height = 600\<rparr>
     (translation (transform (entities (projr (spawn_player
        \<lparr>primary_windows = [\<lparr>width = 800, height = 600\<rparr>], entities = []\<rparr>)) ! 0)))"
  using spawn_player_in_viewport [of "\<lparr>primary_windows = [\<lparr>width = 800, height = 600\<rparr>], entities = []\<rparr>"
      "\<lparr>width = 800, height = 600\<rparr>"
      "projr (spawn_player \<lparr>primary_windows = [\<lparr>width = 800, height = 600\<rparr>], entities = []\<rparr>)"]
  by (simp add: window_query_def fits_player_def PLAYER_RADIUS_def spawn_player_eq)

end
