(* ===== verification/Plugin.thy ===== *)
theory Plugin
  imports Movement Spawn
begin

text \<open>
  \<open>PlayerPlugin\<close> of \<open>src/src/player.rs\<close> (lines 7--26) and the Bevy 0.10 schedule
  that runs its systems. \<open>build\<close> registers \<open>spawn_player\<close> as a startup system and
  \<open>move_player\<close> and \<open>confine_player_movement\<close> as two update systems, with no
  ordering constraint between them. The interface between the plugin and the host is
  the datatype \<open>system\<close> of the three systems and \<open>run_system\<close>, the step each one
  performs on the world. Bevy's \<open>App::add_plugin\<close> refuses a unique plugin twice;
  a frame runs the update systems in some order the executor picks, which the model
  leaves open: \<open>app_tick\<close> is a relation over every permutation of the registered
  systems. \<open>reachable\<close> adds startup and window resizes, and the lemmas prove the
  invariant every reachable world keeps.
\<close>

subsection \<open>Systems and their effect\<close>

datatype system = Spawn_player | Move_player | Confine_player_movement

text \<open>The resources a frame supplies: \<open>Res<Input<KeyCode>>\<close> and \<open>Res<Time>\<close>.\<close>

record frame =
  keyboard :: input
  delta_seconds :: f32

primrec run_system :: "frame \<Rightarrow> system \<Rightarrow> world \<Rightarrow> error + world" where
  "run_system f Spawn_player w = spawn_player w"
| "run_system f Move_player w = Inr (move_player (keyboard f) (delta_seconds f) w)"
| "run_system f Confine_player_movement w = confine_player_movement w"

text \<open>Systems run one after the other; a panic ends the frame.\<close>

fun run_systems :: "frame \<Rightarrow> system list \<Rightarrow> world \<Rightarrow> error + world" where
  "run_systems f [] w = Inr w"
| "run_systems f (s # ss) w = and_then (run_system f s w) (run_systems f ss)"

subsection \<open>The app and the plugin\<close>

record app =
  startup_systems :: "system list"
  update_systems :: "system list"
  plugin_names :: "string list"

definition add_startup_system :: "system \<Rightarrow> app \<Rightarrow> app" where
  "add_startup_system s a = a\<lparr>startup_systems := startup_systems a @ [s]\<rparr>"

definition add_system :: "system \<Rightarrow> app \<Rightarrow> app" where
  "add_system s a = a\<lparr>update_systems := update_systems a @ [s]\<rparr>"

text \<open>The methods of the \<open>Plugin\<close> trait the plugin implements.\<close>

record plugin =
  plugin_build :: "app \<Rightarrow> app"
  plugin_setup :: "app \<Rightarrow> app"
  plugin_name :: string
  plugin_is_unique :: bool

text \<open>Lines 9--13: \<open>PlayerPlugin::build\<close>.\<close>

definition player_plugin_build :: "app \<Rightarrow> app" where
  "player_plugin_build a =
     add_system Confine_player_movement (add_system Move_player (add_startup_system Spawn_player a))"

text \<open>
  Lines 7--26: the plugin. Its name is \<open>std::any::type_name::<Self>()\<close>; the crate
  prefix of that path is not in the sources, and only its being fixed matters here.
\<close>

definition PlayerPlugin :: plugin where
  "PlayerPlugin =
     \<lparr>plugin_build = player_plugin_build, plugin_setup = (\<lambda>a. a),
      plugin_name = ''player::PlayerPlugin'', plugin_is_unique = True\<rparr>"

datatype app_error = Duplicate_plugin string

text \<open>\<open>App::add_plugin\<close>: a unique plugin added twice panics; otherwise it is built.\<close>

definition add_plugin :: "plugin \<Rightarrow> app \<Rightarrow> app_error + app" where
  "add_plugin p a =
     (if plugin_is_unique p \<and> plugin_name p \<in> set (plugin_names a)
      then Inl (Duplicate_plugin (plugin_name p))
      else Inr (plugin_build p (a\<lparr>plugin_names := plugin_names a @ [plugin_name p]\<rparr>)))"

definition empty_app :: app where
  "empty_app = \<lparr>startup_systems = [], update_systems = [], plugin_names = []\<rparr>"

definition player_app :: app where
  "player_app = projr (add_plugin PlayerPlugin empty_app)"

subsection \<open>Frames and reachable worlds\<close>

text \<open>
  One frame of the update schedule: the executor runs the registered update systems in
  an order it chooses, any permutation of them, since no \<open>.before\<close>, \<open>.after\<close> or
  \<open>.chain()\<close> constrains it.
\<close>

inductive app_tick :: "app \<Rightarrow> frame \<Rightarrow> world \<Rightarrow> world \<Rightarrow> bool" where
  run: "mset order = mset (update_systems a) \<Longrightarrow> run_systems f order w = Inr w' \<Longrightarrow>
        app_tick a f w w'"

text \<open>
  Worlds reachable from a host world \<open>w0\<close>: the startup schedule, then frames and
  window resizes between frames in any interleaving.
\<close>

inductive reachable :: "app \<Rightarrow> world \<Rightarrow> world \<Rightarrow> bool" for a w0 where
  startup: "run_systems f (startup_systems a) w0 = Inr w \<Longrightarrow> reachable a w0 w"
| tick: "reachable a w0 w \<Longrightarrow> app_tick a f w w' \<Longrightarrow> reachable a w0 w'"
| resize: "reachable a w0 w \<Longrightarrow> primary_windows w = [win] \<Longrightarrow>
           reachable a w0 (w\<lparr>primary_windows := [win']\<rparr>)"

inductive_cases app_tick_invert: "app_tick a f w w'"

text \<open>
  The invariant of the plugin's worlds: one primary window, one player, whose depth,
  rotation and scale are those it was spawned with.
\<close>

definition player_inv :: "world \<Rightarrow> bool" where
  "player_inv w \<longleftrightarrow>
     length (window_query w) = 1 \<and>
     (\<exists>i. player_query w = [i] \<and>
          vz (translation (transform (entities w ! i))) = 0 \<and>
          rotation (transform (entities w ! i)) = quat_IDENTITY \<and>
          scale (transform (entities w ! i)) = vec3_ONE)"

definition host_world :: "world \<Rightarrow> bool" where
  "host_world w0 \<longleftrightarrow> length (window_query w0) = 1 \<and> player_query w0 = []"

text \<open>
  The viewport rectangle widened by a margin \<open>m\<close> on every side: where a player
  may be after a frame whose clamp ran before its movement.
\<close>

definition in_viewport_margin :: "f32 \<Rightarrow> window \<Rightarrow> vec3 \<Rightarrow> bool" where
  "in_viewport_margin m win t \<longleftrightarrow>
     PLAYER_RADIUS - m \<le> vx t \<and> vx t \<le> width win - PLAYER_RADIUS + m \<and>
     PLAYER_RADIUS - m \<le> vy t \<and> vy t \<le> height win - PLAYER_RADIUS + m"

text \<open>
  Fixtures for the witnesses: the spec's 800 x 600 host world before startup, the
  world after \<open>spawn_player\<close>, and a frame holding one set of keys.
\<close>

abbreviation demo_host :: world where
  "demo_host \<equiv> \<lparr>primary_windows = [\<lparr>width = 800, height = 600\<rparr>], entities = []\<rparr>"

abbreviation demo_spawned :: world where
  "demo_spawned \<equiv> \<lparr>primary_windows = [\<lparr>width = 800, height = 600\<rparr>],
     entities = [\<lparr>transform = transform_from_xyz 400 300 0,
                  texture = Some ''sprites/ball_blue_large.png'', player = True\<rparr>]\<rparr>"

abbreviation demo_frame :: "KeyCode set \<Rightarrow> f32 \<Rightarrow> frame" where
  "demo_frame K dt \<equiv> \<lparr>keyboard = \<lparr>pressed_keys = K\<rparr>, delta_seconds = dt\<rparr>"

subsection \<open>Lemmas on the schedule\<close>

lemma player_app_eq:
  "player_app = \<lparr>startup_systems = [Spawn_player],
                 update_systems = [Move_player, Confine_player_movement],
                 plugin_names = [''player::PlayerPlugin'']\<rparr>"
  by (simp add: player_app_def add_plugin_def PlayerPlugin_def empty_app_def
      player_plugin_build_def add_system_def add_startup_system_def)

lemma mset_player_update_iff:
  "mset order = mset [Move_player, Confine_player_movement] \<longleftrightarrow>
   order = [Move_player, Confine_player_movement] \<or> order = [Confine_player_movement, Move_player]"
proof
  assume m: "mset order = mset [Move_player, Confine_player_movement]"
  then have s: "set order = {Move_player, Confine_player_movement}"
    by (metis set_mset_mset set_simps(1) set_simps(2) insert_commute)
  have "length order = 2"
    using m by (metis size_mset length_Cons list.size(3) numeral_2_eq_2 One_nat_def)
  then obtain x y where xy: "order = [x, y]"
    by (cases order rule: remdups_adj.cases) auto
  have "distinct order" using m
    by (metis distinct_length_2_or_more distinct_singleton mset_eq_imp_distinct_iff
        system.distinct(5))
  with s xy show "order = [Move_player, Confine_player_movement] \<or>
      order = [Confine_player_movement, Move_player]"
    by (cases x; cases y) auto
next
  assume "order = [Move_player, Confine_player_movement] \<or>
      order = [Confine_player_movement, Move_player]"
  then show "mset order = mset [Move_player, Confine_player_movement]"
    by (auto simp: add_mset_commute)
qed

lemma app_tick_player_app_iff:
  "app_tick player_app f w w' \<longleftrightarrow>
     run_systems f [Move_player, Confine_player_movement] w = Inr w' \<or>
     run_systems f [Confine_player_movement, Move_player] w = Inr w'"
proof
  assume "app_tick player_app f w w'"
  then obtain order where m: "mset order = mset (update_systems player_app)"
    and r: "run_systems f order w = Inr w'"
    by (rule app_tick_invert)
  from m have "order = [Move_player, Confine_player_movement] \<or>
      order = [Confine_player_movement, Move_player]"
    by (simp only: player_app_eq app.simps mset_player_update_iff)
  with r show "run_systems f [Move_player, Confine_player_movement] w = Inr w' \<or>
     run_systems f [Confine_player_movement, Move_player] w = Inr w'"
    by blast
next
  assume "run_systems f [Move_player, Confine_player_movement] w = Inr w' \<or>
     run_systems f [Confine_player_movement, Move_player] w = Inr w'"
  then show "app_tick player_app f w w'"
  proof
    assume "run_systems f [Move_player, Confine_player_movement] w = Inr w'"
    then show ?thesis
      by (rule app_tick.run [rotated]) (simp add: player_app_eq)
  next
    assume "run_systems f [Confine_player_movement, Move_player] w = Inr w'"
    then show ?thesis
      by (rule app_tick.run [rotated]) (simp add: player_app_eq add_mset_commute)
  qed
qed

subsection \<open>The invariant, system by system\<close>

lemma player_inv_single:
  "player_inv w \<Longrightarrow> \<exists>win i. window_query w = [win] \<and> player_query w = [i] \<and>
     i < length (entities w) \<and> vz (translation (transform (entities w ! i))) = 0 \<and>
     rotation (transform (entities w ! i)) = quat_IDENTITY \<and>
     scale (transform (entities w ! i)) = vec3_ONE"
proof -
  assume h: "player_inv w"
  then obtain i where q: "player_query w = [i]"
    and t: "vz (translation (transform (entities w ! i))) = 0"
       "rotation (transform (entities w ! i)) = quat_IDENTITY"
       "scale (transform (entities w ! i)) = vec3_ONE"
    by (auto simp: player_inv_def)
  from h obtain win where "window_query w = [win]"
    by (auto simp: player_inv_def length_Suc_conv)
  moreover from q have "i < length (entities w)"
    using player_query_nth [of i w] by simp
  ultimately show ?thesis using q t by blast
qed

lemma move_player_inv:
  assumes "player_inv w"
  shows "player_inv (move_player kb dt w)"
proof -
  from player_inv_single [OF assms] obtain win i where
    q: "window_query w = [win]" "player_query w = [i]" "i < length (entities w)"
    and t: "vz (translation (transform (entities w ! i))) = 0"
       "rotation (transform (entities w ! i)) = quat_IDENTITY"
       "scale (transform (entities w ! i)) = vec3_ONE"
    by blast
  show ?thesis
    using q t by (simp add: player_inv_def move_player_single set_transform_nth move_delta_sel)
qed

lemma confine_player_movement_inv:
  assumes "player_inv w"
  shows "\<exists>w'. confine_player_movement w = Inr w' \<and> player_inv w'"
proof -
  from player_inv_single [OF assms] obtain win i where
    q: "window_query w = [win]" "player_query w = [i]" "i < length (entities w)"
    and t: "vz (translation (transform (entities w ! i))) = 0"
       "rotation (transform (entities w ! i)) = quat_IDENTITY"
       "scale (transform (entities w ! i)) = vec3_ONE"
    by blast
  show ?thesis
    using q t by (simp add: player_inv_def confine_player_movement_single set_transform_nth
        confine_translation_sel)
qed

lemma run_system_inv:
  assumes "player_inv w" "s \<noteq> Spawn_player"
  shows "\<exists>w'. run_system f s w = Inr w' \<and> player_inv w'"
  using assms move_player_inv confine_player_movement_inv by (cases s) auto

lemma run_systems_inv:
  "player_inv w \<Longrightarrow> Spawn_player \<notin> set ss \<Longrightarrow>
   \<exists>w'. run_systems f ss w = Inr w' \<and> player_inv w'"
proof (induction ss arbitrary: w)
  case Nil
  then show ?case by simp
next
  case (Cons s ss)
  then obtain w1 where "run_system f s w = Inr w1" "player_inv w1"
    using run_system_inv [of w s f] by auto
  with Cons show ?case by simp
qed

lemma spawn_player_inv:
  assumes "host_world w0"
  shows "\<exists>w. spawn_player w0 = Inr w \<and> player_inv w"
proof -
  from assms obtain win where "window_query w0 = [win]" "player_query w0 = []"
    by (auto simp: host_world_def length_Suc_conv)
  then show ?thesis
    by (simp add: spawn_player_eq player_inv_def player_query_commands_spawn window_query_def
        vec3_ONE_def)
qed

lemma player_query_windows_update [simp]:
  "player_query (w\<lparr>primary_windows := ws\<rparr>) = player_query w"
  by (simp add: player_query_def)

lemma resize_inv:
  "player_inv w \<Longrightarrow> player_inv (w\<lparr>primary_windows := [win']\<rparr>)"
  by (simp add: player_inv_def window_query_def)

lemma player_app_update_no_spawn:
  "mset order = mset (update_systems player_app) \<Longrightarrow> Spawn_player \<notin> set order"
proof -
  assume "mset order = mset (update_systems player_app)"
  then have "set_mset (mset order) = set_mset (mset [Move_player, Confine_player_movement])"
    by (simp add: player_app_eq)
  then show ?thesis by simp
qed

subsection \<open>The two orders of one frame\<close>

lemma run_move_confine:
  assumes "window_query w = [win]" "player_query w = [i]" "i < length (entities w)"
  shows "run_systems f [Move_player, Confine_player_movement] w =
     Inr (set_transform i ((transform (entities w ! i))\<lparr>translation :=
        confine_translation win (vec3_add (translation (transform (entities w ! i)))
                                 (move_delta (keyboard f) (delta_seconds f)))\<rparr>) w)"
  using assms by (simp add: move_player_single confine_player_movement_single)

lemma run_confine_move:
  assumes "window_query w = [win]" "player_query w = [i]" "i < length (entities w)"
  shows "run_systems f [Confine_player_movement, Move_player] w =
     Inr (set_transform i ((transform (entities w ! i))\<lparr>translation :=
        vec3_add (confine_translation win (translation (transform (entities w ! i))))
                 (move_delta (keyboard f) (delta_seconds f))\<rparr>) w)"
  using assms by (simp add: move_player_single confine_player_movement_single)

lemma reachable_inv:
  assumes "host_world w0"
  shows "reachable player_app w0 w \<Longrightarrow> player_inv w"
proof (induction rule: reachable.induct)
  case (startup f w)
  then have "spawn_player w0 = Inr w"
    by (simp add: player_app_eq and_then_def split: sum.splits)
  then show ?case using spawn_player_inv [OF assms] by auto
next
  case (tick w f w')
  then obtain order where m: "mset order = mset (update_systems player_app)"
    and r: "run_systems f order w = Inr w'"
    by (auto elim: app_tick_invert)
  from m have "Spawn_player \<notin> set order" by (rule player_app_update_no_spawn)
  with tick.IH r show ?case
    using run_systems_inv [of w order f] by auto
next
  case (resize w win win')
  from resize.IH show ?case by (rule resize_inv)
qed

lemma move_delta_right:
  "move_delta \<lparr>pressed_keys = {Right}\<rparr> dt = vec3_new (PLAYER_SPEED * dt) 0 0"
proof -
  have k: "key_direction \<lparr>pressed_keys = {Right}\<rparr> = vec3_new 1 0 0"
    by (simp add: key_direction_eq pressed_def)
  have "move_direction \<lparr>pressed_keys = {Right}\<rparr> = vec3_normalize (vec3_new 1 0 0)"
    using k move_direction_nonzero [of "\<lparr>pressed_keys = {Right}\<rparr>"]
    by (simp add: vec3_ZERO_def vec3_new_def)
  moreover have "vec3_length (vec3_new 1 0 0) = 1"
    by (simp add: vec3_length_def vec3_dot_def)
  ultimately show ?thesis
    by (simp add: move_delta_def vec3_eq_iff vec3_normalize_sel)
qed

lemma demo_host_world: "host_world demo_host"
  by (simp add: host_world_def window_query_def player_query_def)

lemma demo_spawned_reachable: "reachable player_app demo_host demo_spawned"
  by (rule reachable.startup [where f = "demo_frame {} 0"])
    (simp add: player_app_eq spawn_player_eq window_query_def player_sprite_def)

lemma demo_spawned_query:
  "window_query demo_spawned = [\<lparr>width = 800, height = 600\<rparr>]"
  "player_query demo_spawned = [0]"
  by (simp_all add: window_query_def player_query_def)

subsection \<open>Properties of the plugin and its schedule\<close>

text \<open>
  C3. Invariant of the running plugin: in every world reachable from a host world
  with one primary window and no player (startup, frames in any system order, window
  resizes), there is one primary window and exactly one player, at depth 0 with the
  identity rotation and unit scale it was spawned with.
\<close>

theorem reachable_player_invariant:
  assumes "host_world w0" "reachable player_app w0 w"
  shows "length (window_query w) = 1 \<and>
         (\<exists>i. player_query w = [i] \<and> vz (translation (transform (entities w ! i))) = 0 \<and>
              rotation (transform (entities w ! i)) = quat_IDENTITY \<and>
              scale (transform (entities w ! i)) = vec3_ONE)"
  using reachable_inv [OF assms] by (simp add: player_inv_def)

theorem reachable_player_invariant_witness:
  "length (window_query demo_spawned) = 1 \<and>
   (\<exists>i. player_query demo_spawned = [i] \<and>
        vz (translation (transform (entities demo_spawned ! i))) = 0 \<and>
        rotation (transform (entities demo_spawned ! i)) = quat_IDENTITY \<and>
        scale (transform (entities demo_spawned ! i)) = vec3_ONE)"
  by (rule reachable_player_invariant [OF demo_host_world demo_spawned_reachable])

text \<open>
  C9. Integrator then clamp: in a reachable world whose window fits the player, the
  frame that runs \<open>move_player\<close> before \<open>confine_player_movement\<close> succeeds and
  leaves the player inside the window shrunk by the radius, whatever the keys and the
  elapsed time, and whatever resizes happened before.
\<close>

theorem move_then_confine_in_viewport:
  assumes "host_world w0" "reachable player_app w0 w"
    and "window_query w = [win]" "fits_player win"
  shows "\<exists>w' i. run_systems f [Move_player, Confine_player_movement] w = Inr w' \<and>
           player_query w' = [i] \<and> in_viewport win (translation (transform (entities w' ! i)))"
proof -
  obtain win' i where q: "window_query w = [win']" "player_query w = [i]"
    "i < length (entities w)"
    using player_inv_single [OF reachable_inv [OF assms(1,2)]] by blast
  with assms(3) have q': "window_query w = [win]" by simp
  note r = run_move_confine [OF q' q(2,3), of f]
  show ?thesis
    using q(2,3) assms(4)
    by (simp only: r) (simp add: confine_translation_in_viewport)
qed

theorem move_then_confine_in_viewport_witness:
  "\<exists>w' i. run_systems (demo_frame {Right, D, Up} 10) [Move_player, Confine_player_movement]
            demo_spawned = Inr w' \<and>
          player_query w' = [i] \<and>
          in_viewport \<lparr>width = 800, height = 600\<rparr> (translation (transform (entities w' ! i)))"
  by (rule move_then_confine_in_viewport [OF demo_host_world demo_spawned_reachable])
    (simp_all add: window_query_def fits_player_def PLAYER_RADIUS_def)

text \<open>
  C4. Order dependence: the schedule does not enforce integrator-then-clamp. From the
  spec's scenario (player at (780, 300) in an 800 x 600 window, right held for one
  second) the executor may run the clamp first; that frame is a frame of the app and
  leaves the player at x = 968, outside the window shrunk by the radius.
\<close>

theorem confine_then_move_leaves_viewport:
  "app_tick player_app (demo_frame {Right} 1)
     \<lparr>primary_windows = [\<lparr>width = 800, height = 600\<rparr>],
      entities = [\<lparr>transform = transform_from_xyz 780 300 0,
                   texture = Some ''sprites/ball_blue_large.png'', player = True\<rparr>]\<rparr>
     \<lparr>primary_windows = [\<lparr>width = 800, height = 600\<rparr>],
      entities = [\<lparr>transform = transform_from_xyz 968 300 0,
                   texture = Some ''sprites/ball_blue_large.png'', player = True\<rparr>]\<rparr>
   \<and> \<not> in_viewport \<lparr>width = 800, height = 600\<rparr> (vec3_new 968 300 0)"
proof -
  let ?w = "\<lparr>primary_windows = [\<lparr>width = 800, height = 600\<rparr>],
      entities = [\<lparr>transform = transform_from_xyz 780 300 0,
                   texture = Some ''sprites/ball_blue_large.png'', player = True\<rparr>]\<rparr>"
  have dir: "move_delta \<lparr>pressed_keys = {Right}\<rparr> 1 = vec3_new 200 0 0"
    by (simp add: move_delta_right PLAYER_SPEED_def)
  have "run_systems (demo_frame {Right} 1) [Confine_player_movement, Move_player] ?w =
        Inr \<lparr>primary_windows = [\<lparr>width = 800, height = 600\<rparr>],
             entities = [\<lparr>transform = transform_from_xyz 968 300 0,
                   texture = Some ''sprites/ball_blue_large.png'', player = True\<rparr>]\<rparr>"
    using run_confine_move [of ?w "\<lparr>width = 800, height = 600\<rparr>" 0 "demo_frame {Right} 1"] dir
    by (simp add: window_query_def player_query_def set_transform_def vec3_eq_iff
        confine_translation_sel confine_axis_def PLAYER_RADIUS_def transform_from_xyz_def)
  then show ?thesis
    by (simp add: app_tick_player_app_iff in_viewport_def PLAYER_RADIUS_def)
qed

text \<open>
  C10. Bounded overshoot: whichever order the executor picks, after a frame from a
  reachable world whose window fits the player, the player is at most
  \<open>PLAYER_SPEED * |delta_seconds|\<close> outside the shrunk window on each axis.
\<close>

theorem tick_overshoot_bound:
  assumes "host_world w0" "reachable player_app w0 w"
    and "window_query w = [win]" "fits_player win"
    and "app_tick player_app f w w'" "player_query w' = [j]"
  shows "in_viewport_margin (PLAYER_SPEED * \<bar>delta_seconds f\<bar>) win
           (translation (transform (entities w' ! j)))"
proof -
  obtain win' i where q: "window_query w = [win']" "player_query w = [i]"
    "i < length (entities w)"
    using player_inv_single [OF reachable_inv [OF assms(1,2)]] by blast
  with assms(3) have q': "window_query w = [win]" by simp
  let ?t = "translation (transform (entities w ! i))"
  let ?d = "move_delta (keyboard f) (delta_seconds f)"
  have m: "0 \<le> PLAYER_SPEED * \<bar>delta_seconds f\<bar>" by (simp add: PLAYER_SPEED_def)
  have inside: "in_viewport win (confine_translation win t)" for t
    using assms(4) by (rule confine_translation_in_viewport)
  from assms(5) consider
      (mc) "run_systems f [Move_player, Confine_player_movement] w = Inr w'"
    | (cm) "run_systems f [Confine_player_movement, Move_player] w = Inr w'"
    by (auto simp: app_tick_player_app_iff)
  then show ?thesis
  proof cases
    case mc
    with run_move_confine [OF q' q(2,3), of f]
    have "w' = set_transform i ((transform (entities w ! i))\<lparr>translation :=
        confine_translation win (vec3_add ?t ?d)\<rparr>) w"
      by (simp only: sum.inject(2))
    with q assms(6) inside [of "vec3_add ?t ?d"] m show ?thesis
      by (auto simp: in_viewport_def in_viewport_margin_def)
  next
    case cm
    with run_confine_move [OF q' q(2,3), of f]
    have "w' = set_transform i ((transform (entities w ! i))\<lparr>translation :=
        vec3_add (confine_translation win ?t) ?d\<rparr>) w"
      by (simp only: sum.inject(2))
    with q assms(6) inside [of ?t]
      move_delta_lane_bound [of "keyboard f" "delta_seconds f"] show ?thesis
      by (auto simp: in_viewport_def in_viewport_margin_def abs_le_iff)
  qed
qed

theorem tick_overshoot_bound_witness:
  "in_viewport_margin (PLAYER_SPEED * \<bar>delta_seconds (demo_frame {Right} 1)\<bar>)
     \<lparr>width = 800, height = 600\<rparr>
     (translation (transform (entities (projr (run_systems (demo_frame {Right} 1)
        [Confine_player_movement, Move_player] demo_spawned)) ! 0)))"
proof -
  have r: "run_systems (demo_frame {Right} 1) [Confine_player_movement, Move_player] demo_spawned
      = Inr (projr (run_systems (demo_frame {Right} 1)
          [Confine_player_movement, Move_player] demo_spawned))"
    using run_confine_move [of demo_spawned "\<lparr>width = 800, height = 600\<rparr>" 0
        "demo_frame {Right} 1"]
    by (simp add: demo_spawned_query)
  have t: "app_tick player_app (demo_frame {Right} 1) demo_spawned
      (projr (run_systems (demo_frame {Right} 1) [Confine_player_movement, Move_player] demo_spawned))"
    using r by (simp add: app_tick_player_app_iff)
  have p: "player_query (projr (run_systems (demo_frame {Right} 1)
      [Confine_player_movement, Move_player] demo_spawned)) = [0]"
    using run_confine_move [of demo_spawned "\<lparr>width = 800, height = 600\<rparr>" 0
        "demo_frame {Right} 1"]
    by (simp add: demo_spawned_query)
  show ?thesis
    by (rule tick_overshoot_bound [OF demo_host_world demo_spawned_reachable _ _ t p])
      (simp_all add: window_query_def fits_player_def PLAYER_RADIUS_def)
qed

end
