(* ===== verification/Spec2Isabelle.thy ===== *)
theory Spec2Isabelle
  imports Plugin
begin

text \<open>
  \<^bold>\<open>A verified model of the player plugin of Learning-Bevy.\<close>

  The repository's logic is \<open>src/src/player.rs\<close>: a Bevy 0.10 plugin that spawns one
  ball-shaped player at the centre of the primary window (\<open>spawn_player\<close>, a startup
  system), moves it from the arrow keys or WASD each frame (\<open>move_player\<close>) and keeps
  it inside the window shrunk by its radius (\<open>confine_player_movement\<close>). The three
  systems share one mutable value, the player's \<open>Transform\<close>, and read the host's
  resources: the keyboard, the frame time and the primary window.

  \<^bold>\<open>Theories and what they model.\<close>
  \<^item> \<open>Prelude\<close>: rule collections (\<open>vec_simps\<close>, \<open>world_simps\<close>,
    \<open>system_simps\<close>), \<open>f32\<close> as \<open>real\<close>, \<open>and_then\<close> for results that may be a
    panic, list and square-root lemmas the components share.
  \<^item> \<open>Vec3\<close>: glam's \<open>Vec3\<close> (\<open>+\<close>, \<open>* f32\<close>, \<open>length\<close>, \<open>normalize\<close>),
    \<open>Quat::IDENTITY\<close> and Bevy's \<open>Transform::from_xyz\<close> (libraries, from their
    documented behaviour).
  \<^item> \<open>Ecs\<close>: the host world as the plugin sees it: \<open>KeyCode\<close> (the eight keys used
    and \<open>Other_key\<close>), \<open>Input::pressed\<close>, windows, entities with the \<open>Player\<close>
    marker (lines 28--29), \<open>Query::get_single\<close>, the write-back of
    \<open>get_single_mut\<close>, \<open>Commands::spawn\<close> and \<open>Result::unwrap\<close> (a panic is the
    value \<open>Inl (Unwrap_failed e)\<close>).
  \<^item> \<open>Movement\<close>: \<open>PLAYER_SPEED\<close> (line 4) and \<open>move_player\<close> (48--75), split as
    the code is: \<open>key_direction\<close> (54--67), \<open>move_direction\<close> (69--71),
    \<open>move_delta\<close> (73). Lemmas: the direction lane by lane, its length 0 or 1, the
    step's length and per-axis bound, skipping without exactly one player.
  \<^item> \<open>Confine\<close>: \<open>PLAYER_RADIUS\<close> (line 5) and \<open>confine_player_movement\<close>
    (77--101) with \<open>confine_axis\<close> (88--92, 93--97) and \<open>confine_translation\<close>
    (82--99); \<open>in_viewport\<close> is the spec's invariant, \<open>fits_player\<close> its
    precondition. Lemmas: the code's \<open>if / else if\<close> equals the reference clamp when
    the bounds are ordered, and what it does when they are not.
  \<^item> \<open>Spawn\<close>: \<open>spawn_player\<close> (31--46).
  \<^item> \<open>Plugin\<close>: \<open>PlayerPlugin\<close> (7--26) and \<open>build\<close> (9--13); the interface
    between plugin and host is the datatype \<open>system\<close> with \<open>run_system\<close>. The Bevy
    0.10 schedule is host behaviour: \<open>add_plugin\<close> refuses a unique plugin twice;
    \<open>app_tick\<close> runs the update systems in any permutation (no ordering constraint
    is registered); \<open>reachable\<close> closes a host world under startup, frames and
    window resizes. \<open>player_inv\<close> is the invariant every reachable world keeps,
    proved system by system and lifted by rule induction.
  \<^item> this theory: the abstract specification of spec.md on 2D positions
    (\<open>spec_tick\<close>), the abstraction \<open>abs_position\<close>, and the refinement of a
    frame by it.

  \<^bold>\<open>What the properties show.\<close> Each property of the manifest is a theorem
  preceded by a text block naming its claim C1--C24: the clamp invariant (C1), the
  refinement of a move-then-clamp frame by the spec's tick (C2), the reachable-world
  invariant (C3), that the schedule admits the clamp-first order and that order can
  leave the bounds (C4), the movement laws (unit speed C5, diagonal C6, aliases C7,
  idle C8, opposing keys C15, zero time C17, soft absence C18, frame C22, linearity in
  the elapsed time C24), the frame-level bounds in both orders (C9, C10), spawn (C11,
  C16, C21) and the clamp's details (C12--C14, C19, C20, C23). The spec's numeric
  scenarios of section 8 are instances of C11, C2 and C4.

  \<^bold>\<open>Modelling choices.\<close> Rust's \<open>f32\<close> is \<open>real\<close>: every result is the exact
  real-number value, so the claims about IEEE rounding (the spec's "exactly
  \<open>Speed * t / sqrt 2\<close>"), NaN and infinities are outside the model. There are no
  loops in the program, so no fuel or termination measure is needed; the only
  recursion is \<open>run_systems\<close> over a list of systems. One consequence of
  \<open>real\<close>: HOL's \<open>1 / 0 = 0\<close> makes the normalisation of the zero vector the zero
  vector, where glam yields NaN lanes, so the \<open>direction.length() > 0.0\<close> guard of
  line 69 is faithfully modelled but no theorem can observe its removal. Commands are applied at the end
  of the system that queued them (the only startup system is \<open>spawn_player\<close>).
  Sprite data other than the texture path, the asset server, rendering, the window's
  creation and its scale factor are not modelled; \<open>Time::delta_seconds\<close> and the
  keyboard state are arbitrary values supplied per frame.
\<close>

section \<open>The abstract specification\<close>

text \<open>
  The contract of spec.md, sections 4.2 and 4.3, on the player's 2D position only:
  a logical direction is held when any of its alias keys is held (section 9's fixed
  mapping from direction to keys); held directions contribute their unit vectors, the
  sum is normalised when non-zero, the position moves by
  \<open>direction * speed * dt\<close>, and each axis is clamped to
  \<open>[radius, extent - radius]\<close>.
\<close>

datatype spec_dir = Dir_left | Dir_right | Dir_up | Dir_down

definition spec_aliases :: "spec_dir \<Rightarrow> KeyCode list" where
  "spec_aliases d =
     (case d of Dir_left \<Rightarrow> [Left, A] | Dir_right \<Rightarrow> [Right, D]
              | Dir_up \<Rightarrow> [Up, W] | Dir_down \<Rightarrow> [Down, S])"

definition spec_unit :: "spec_dir \<Rightarrow> real \<times> real" where
  "spec_unit d =
     (case d of Dir_left \<Rightarrow> (-1, 0) | Dir_right \<Rightarrow> (1, 0)
              | Dir_up \<Rightarrow> (0, 1) | Dir_down \<Rightarrow> (0, -1))"

definition spec_held :: "KeyCode set \<Rightarrow> spec_dir \<Rightarrow> bool" where
  "spec_held K d = list_ex (\<lambda>k. k \<in> K) (spec_aliases d)"

definition spec_direction :: "KeyCode set \<Rightarrow> real \<times> real" where
  "spec_direction K =
     foldr (\<lambda>d acc. if spec_held K d
                     then (fst acc + fst (spec_unit d), snd acc + snd (spec_unit d)) else acc)
       [Dir_left, Dir_right, Dir_up, Dir_down] (0, 0)"

definition spec_normalize :: "real \<times> real \<Rightarrow> real \<times> real" where
  "spec_normalize v =
     (let n = sqrt (fst v * fst v + snd v * snd v)
      in if n = 0 then v else (fst v / n, snd v / n))"

definition spec_clamp :: "real \<Rightarrow> real \<Rightarrow> real \<Rightarrow> real" where
  "spec_clamp lo hi v = max lo (min hi v)"

definition spec_tick ::
  "real \<Rightarrow> real \<Rightarrow> real \<times> real \<Rightarrow> KeyCode set \<Rightarrow> real \<Rightarrow> real \<times> real \<Rightarrow> real \<times> real" where
  "spec_tick speed radius viewport K dt p =
     (let u = spec_normalize (spec_direction K);
          x = fst p + fst u * speed * dt;
          y = snd p + snd u * speed * dt
      in (spec_clamp radius (fst viewport - radius) x, spec_clamp radius (snd viewport - radius) y))"

text \<open>The abstraction of a world: the single player's position, if there is one.\<close>

definition abs_position :: "world \<Rightarrow> (real \<times> real) option" where
  "abs_position w =
     (case get_single (player_query w) of
        Inr i \<Rightarrow> Some (vx (translation (transform (entities w ! i))),
                        vy (translation (transform (entities w ! i))))
      | Inl _ \<Rightarrow> None)"

subsection \<open>The code's direction is the specified one\<close>

lemma spec_direction_key_direction:
  "spec_direction (pressed_keys kb) = (vx (key_direction kb), vy (key_direction kb))"
  by (simp add: spec_direction_def spec_held_def spec_aliases_def spec_unit_def
      key_direction_sel pressed_def)

lemma key_direction_length:
  "vec3_length (key_direction kb) =
     sqrt (vx (key_direction kb) * vx (key_direction kb) + vy (key_direction kb) * vy (key_direction kb))"
  by (simp add: vec3_length_def vec3_dot_def key_direction_sel(3))

lemma move_direction_spec:
  "(vx (move_direction kb), vy (move_direction kb)) = spec_normalize (spec_direction (pressed_keys kb))"
proof (cases "key_direction kb = vec3_ZERO")
  case True
  then show ?thesis
    by (simp add: move_direction_ZERO spec_direction_key_direction spec_normalize_def)
next
  case False
  then have "0 < vec3_length (key_direction kb)" by (simp add: vec3_length_pos_iff)
  with False show ?thesis
    by (simp add: move_direction_nonzero spec_direction_key_direction spec_normalize_def
        vec3_normalize_sel key_direction_length Let_def)
qed

lemma abs_position_single:
  "player_query w = [i] \<Longrightarrow>
   abs_position w = Some (vx (translation (transform (entities w ! i))),
                          vy (translation (transform (entities w ! i))))"
  by (simp add: abs_position_def)

section \<open>Properties spanning the components\<close>

text \<open>
  C2. Refinement: from every reachable world whose window fits the player, a frame
  run in the order integrator-then-clamp succeeds and moves the abstract position
  exactly as the specification's tick does, with the code's speed and radius and the
  current window's extent.
\<close>

theorem tick_refines_spec:
  assumes "host_world w0" "reachable player_app w0 w"
    and "window_query w = [win]" "fits_player win"
  shows "\<exists>w'. run_systems f [Move_player, Confine_player_movement] w = Inr w' \<and>
           abs_position w' =
             map_option (spec_tick PLAYER_SPEED PLAYER_RADIUS (width win, height win)
                           (pressed_keys (keyboard f)) (delta_seconds f)) (abs_position w)"
proof -
  obtain win' i where q: "window_query w = [win']" "player_query w = [i]"
    "i < length (entities w)"
    using player_inv_single [OF reachable_inv [OF assms(1,2)]] by blast
  with assms(3) have q': "window_query w = [win]" by simp
  note r = run_move_confine [OF q' q(2,3), of f]
  have u: "vx (move_direction (keyboard f)) = fst (spec_normalize (spec_direction (pressed_keys (keyboard f))))"
          "vy (move_direction (keyboard f)) = snd (spec_normalize (spec_direction (pressed_keys (keyboard f))))"
    using move_direction_spec [of "keyboard f"] by (simp_all add: prod_eq_iff)
  from assms(4) have "PLAYER_RADIUS \<le> width win - PLAYER_RADIUS"
      "PLAYER_RADIUS \<le> height win - PLAYER_RADIUS"
    by (simp_all add: fits_player_def)
  with q(2,3) u show ?thesis
    unfolding r
    by (simp add: abs_position_single spec_tick_def spec_clamp_def Let_def
        confine_translation_sel confine_axis_ref move_delta_sel)
qed

theorem tick_refines_spec_witness:
  "\<exists>w'. run_systems (demo_frame {Up, D} (1 / 4)) [Move_player, Confine_player_movement]
            demo_spawned = Inr w' \<and>
        abs_position w' =
          map_option (spec_tick PLAYER_SPEED PLAYER_RADIUS (800, 600) {Up, D} (1 / 4))
            (abs_position demo_spawned)"
  using tick_refines_spec [OF demo_host_world demo_spawned_reachable,
      of "\<lparr>width = 800, height = 600\<rparr>" "demo_frame {Up, D} (1 / 4)"]
  by (simp add: window_query_def fits_player_def PLAYER_RADIUS_def)

end
